theory Spec2Isabelle
  imports Complex_Main
begin

section \<open>Order pricing with stacked discounts (main.cpp)\<close>

text \<open>
  The program prices an order: every order line is multiplied by the complement of up to
  three discount fractions (article, line, customer) and the sum of the lines by the
  complement of the order's own discount.

  Modelling decisions.
  \<^item> A C++ \<open>double\<close> is modelled by the real number it stands for: rounding, infinities and
    NaN are outside the model, and the literals \<open>0.1\<close>, \<open>0.05\<close> are the decimal fractions.
    This model carries the statements about which operations the code performs on which
    values.
  \<^item> The same code is modelled a second time on IEEE 754 doubles (the functions named
    \<open>..._double\<close>): every result is rounded, a rounded result beyond the largest double
    is an infinity, and the infinities and NaN are values with their own arithmetic and
    comparisons. This model carries the statements about all inputs of a rule and about
    the sign of the price, where overflow decides.
  \<^item> \<open>int\<close> fields are modelled by \<open>int\<close>; the program only converts them to \<open>double\<close>
    (exactly, \<open>real_of_int\<close>) and never computes on them.
  \<^item> The discount rules and the customers are referenced through raw pointers, and one
    rule object may be referenced from many places. A pointer is either \<open>nullptr\<close> or the
    address of an object, and the objects live in a \<open>memory\<close> that \<open>CalculatePrice\<close> only
    reads. The four classes derived from \<open>DiscountType\<close> are the constructors of one datatype,
    virtual dispatch is pattern matching.
  \<^item> Dereferencing \<open>nullptr\<close> is an error value of the model, so that the guards of the
    source have something to protect.
\<close>

subsection \<open>Approximate equality\<close>

definition AreEqual :: "real \<Rightarrow> real \<Rightarrow> real \<Rightarrow> bool" where
  "AreEqual d1 d2 diff = (\<bar>d1 - d2\<bar> \<le> diff)"

subsection \<open>Discount rules\<close>

text \<open>
  Constructor arguments are in the order of the C++ constructors:
  \<open>FixedDiscount(discount)\<close>, \<open>VolumeDiscount(quantity, discount)\<close>,
  \<open>PriceDiscount(price, discount)\<close>, \<open>AmountDiscount(price, discount)\<close>.
\<close>

datatype DiscountType =
    FixedDiscount (discount: real)
  | VolumeDiscount (min_quantity: real) (discount: real)
  | PriceDiscount (min_total_price: real) (discount: real)
  | AmountDiscount (min_total_price: real) (discount: real)

fun DiscountPercent :: "DiscountType \<Rightarrow> real \<Rightarrow> real \<Rightarrow> real" where
  "DiscountPercent (FixedDiscount d) price quantity = d"
| "DiscountPercent (VolumeDiscount min_q d) price quantity =
     (if quantity \<ge> min_q then d else 0)"
| "DiscountPercent (PriceDiscount min_total d) price quantity =
     (if price * quantity \<ge> min_total then d else 0)"
| "DiscountPercent (AmountDiscount min_total d) price quantity =
     (if price \<ge> min_total then d else 0)"

subsection \<open>Pointers, records and the memory they point into\<close>

datatype 'a ptr = nullptr | Ptr nat

record Customer =
  name :: string
  discount :: "DiscountType ptr"

datatype ArticleUnit = PIECE | KG | METER | SQMETER | CMETER | LITER

record Article =
  id :: int
  name :: string
  price :: real
  unit :: ArticleUnit
  discount :: "DiscountType ptr"

record OrderLine =
  product :: Article
  quantity :: int
  discount :: "DiscountType ptr"

record Order =
  id :: int
  buyer :: "Customer ptr"
  lines :: "OrderLine list"
  discount :: "DiscountType ptr"

text \<open>
  The objects behind the pointers. Every address holds an object of the pointer's type,
  so the only pointer that cannot be dereferenced is \<open>nullptr\<close>.
\<close>

record memory =
  discount_at :: "nat \<Rightarrow> DiscountType"
  customer_at :: "nat \<Rightarrow> Customer"

datatype error = NullPointerDereference

fun deref_discount :: "memory \<Rightarrow> DiscountType ptr \<Rightarrow> error + DiscountType" where
  "deref_discount m nullptr = Inl NullPointerDereference"
| "deref_discount m (Ptr a) = Inr (discount_at m a)"

fun deref_customer :: "memory \<Rightarrow> Customer ptr \<Rightarrow> error + Customer" where
  "deref_customer m nullptr = Inl NullPointerDereference"
| "deref_customer m (Ptr a) = Inr (customer_at m a)"

text \<open>Sequencing of steps that may fail: the first error ends the computation.\<close>

fun and_then :: "error + 'a \<Rightarrow> ('a \<Rightarrow> error + 'b) \<Rightarrow> error + 'b" where
  "and_then (Inl e) f = Inl e"
| "and_then (Inr v) f = f v"

subsection \<open>CumulativePriceCalculator::CalculatePrice\<close>

text \<open>
  The statement \<open>amount *= (1.0 - d->DiscountPercent(pr, qty))\<close>, which the source
  writes four times.
\<close>

definition apply_discount ::
    "memory \<Rightarrow> DiscountType ptr \<Rightarrow> real \<Rightarrow> real \<Rightarrow> real \<Rightarrow> error + real" where
  "apply_discount m d pr qty amount =
     and_then (deref_discount m d)
       (\<lambda>rule. Inr (amount * (1 - DiscountPercent rule pr qty)))"

text \<open>
  The condition \<open>o.buyer && o.buyer->discount\<close>: the right operand is evaluated only
  when the left one holds.
\<close>

definition buyer_has_discount :: "memory \<Rightarrow> Order \<Rightarrow> error + bool" where
  "buyer_has_discount m ord =
     (if buyer ord \<noteq> nullptr
      then and_then (deref_customer m (buyer ord))
             (\<lambda>c. Inr (Customer.discount c \<noteq> nullptr))
      else Inr False)"

text \<open>The body of the loop over \<open>o.lines\<close>; \<open>running\<close> is the variable \<open>price\<close> of the source, the running sum.\<close>

definition line_step :: "memory \<Rightarrow> Order \<Rightarrow> OrderLine \<Rightarrow> real \<Rightarrow> error + real" where
  "line_step m ord ol running =
     (let p = Article.price (OrderLine.product ol);
          q = real_of_int (OrderLine.quantity ol);
          line_price = p * q
      in and_then
           (if Article.discount (OrderLine.product ol) \<noteq> nullptr
            then apply_discount m (Article.discount (OrderLine.product ol)) p q line_price
            else Inr line_price)
        (\<lambda>line_price. and_then
           (if OrderLine.discount ol \<noteq> nullptr
            then apply_discount m (OrderLine.discount ol) p q line_price
            else Inr line_price)
        (\<lambda>line_price. and_then
           (and_then (buyer_has_discount m ord)
              (\<lambda>c. if c
                 then and_then (deref_customer m (buyer ord))
                        (\<lambda>b. apply_discount m (Customer.discount b) p q line_price)
                 else Inr line_price))
        (\<lambda>line_price. Inr (running + line_price)))))"

fun for_lines :: "memory \<Rightarrow> Order \<Rightarrow> OrderLine list \<Rightarrow> real \<Rightarrow> error + real" where
  "for_lines m ord [] running = Inr running"
| "for_lines m ord (ol # rest) running =
     and_then (line_step m ord ol running) (for_lines m ord rest)"

definition CalculatePrice :: "memory \<Rightarrow> Order \<Rightarrow> error + real" where
  "CalculatePrice m ord =
     and_then (for_lines m ord (lines ord) 0)
       (\<lambda>running.
          if Order.discount ord \<noteq> nullptr
          then apply_discount m (Order.discount ord) running 0 running
          else Inr running)"

subsection \<open>The objects of \<open>main\<close>\<close>

text \<open>
  \<open>main\<close> builds four rules, three customers, three articles and nine orders on its
  stack. Here \<open>&d1\<close>, ..., \<open>&d4\<close> are the addresses 1 to 4 of the rules and \<open>&c1\<close>,
  \<open>&c2\<close>, \<open>&c3\<close> the addresses 1 to 3 of the customers.
\<close>

definition d1 :: DiscountType where "d1 = FixedDiscount 0.1"
definition d2 :: DiscountType where "d2 = VolumeDiscount 10 0.15"
definition d3 :: DiscountType where "d3 = PriceDiscount 100 0.05"
definition d4 :: DiscountType where "d4 = AmountDiscount 100 0.05"

definition c1 :: Customer where
  "c1 = \<lparr>Customer.name = ''default'', discount = nullptr\<rparr>"
definition c2 :: Customer where
  "c2 = \<lparr>Customer.name = ''john'', discount = Ptr 1\<rparr>"
definition c3 :: Customer where
  "c3 = \<lparr>Customer.name = ''joane'', discount = Ptr 3\<rparr>"

definition main_memory :: memory where
  "main_memory =
     \<lparr>discount_at = (\<lambda>a. if a = 1 then d1 else if a = 2 then d2 else if a = 3 then d3 else d4),
      customer_at = (\<lambda>a. if a = 1 then c1 else if a = 2 then c2 else c3)\<rparr>"

definition a1 :: Article where
  "a1 = \<lparr>Article.id = 1, name = ''pen'', price = 5, unit = PIECE, discount = nullptr\<rparr>"
definition a2 :: Article where
  "a2 = \<lparr>Article.id = 2, name = ''expensive pen'', price = 15, unit = PIECE, discount = Ptr 1\<rparr>"
definition a3 :: Article where
  "a3 = \<lparr>Article.id = 3, name = ''scissors'', price = 10, unit = PIECE, discount = Ptr 2\<rparr>"

definition o1 :: Order where
  "o1 = \<lparr>Order.id = 101, buyer = Ptr 1,
          lines = [\<lparr>OrderLine.product = a1, quantity = 1, discount = nullptr\<rparr>],
          discount = nullptr\<rparr>"
definition o2 :: Order where
  "o2 = \<lparr>Order.id = 102, buyer = Ptr 2,
          lines = [\<lparr>OrderLine.product = a1, quantity = 1, discount = nullptr\<rparr>],
          discount = nullptr\<rparr>"
definition o3 :: Order where
  "o3 = \<lparr>Order.id = 103, buyer = Ptr 1,
          lines = [\<lparr>OrderLine.product = a2, quantity = 1, discount = nullptr\<rparr>],
          discount = nullptr\<rparr>"
definition o4 :: Order where
  "o4 = \<lparr>Order.id = 104, buyer = Ptr 2,
          lines = [\<lparr>OrderLine.product = a2, quantity = 1, discount = nullptr\<rparr>],
          discount = nullptr\<rparr>"
definition o5 :: Order where
  "o5 = \<lparr>Order.id = 105, buyer = Ptr 1,
          lines = [\<lparr>OrderLine.product = a3, quantity = 1, discount = nullptr\<rparr>],
          discount = nullptr\<rparr>"
definition o6 :: Order where
  "o6 = \<lparr>Order.id = 106, buyer = Ptr 1,
          lines = [\<lparr>OrderLine.product = a3, quantity = 15, discount = nullptr\<rparr>],
          discount = nullptr\<rparr>"
definition o7 :: Order where
  "o7 = \<lparr>Order.id = 107, buyer = Ptr 3,
          lines = [\<lparr>OrderLine.product = a3, quantity = 15, discount = nullptr\<rparr>],
          discount = nullptr\<rparr>"
definition o8 :: Order where
  "o8 = \<lparr>Order.id = 108, buyer = Ptr 3,
          lines = [\<lparr>OrderLine.product = a2, quantity = 20, discount = Ptr 1\<rparr>],
          discount = nullptr\<rparr>"
definition o9 :: Order where
  "o9 = \<lparr>Order.id = 109, buyer = Ptr 3,
          lines = [\<lparr>OrderLine.product = a2, quantity = 20, discount = Ptr 1\<rparr>],
          discount = Ptr 4\<rparr>"

text \<open>The check \<open>assert(AreEqual(calc.CalculatePrice(o), expected))\<close> of \<open>main\<close>.\<close>

definition assert_price :: "memory \<Rightarrow> Order \<Rightarrow> real \<Rightarrow> bool" where
  "assert_price m ord expected =
     (case CalculatePrice m ord of
        Inl e \<Rightarrow> False
      | Inr t \<Rightarrow> AreEqual t expected 0.001)"

subsection \<open>What the specification says a line contributes\<close>

text \<open>
  The specification's reading of the algorithm, to be compared with the code: an attached
  rule contributes the factor \<open>1 - f\<close>, with \<open>f\<close> the rule evaluated at the given unit price
  and quantity, and a missing rule contributes no factor.
\<close>

definition spec_factor :: "memory \<Rightarrow> DiscountType ptr \<Rightarrow> real \<Rightarrow> real \<Rightarrow> real" where
  "spec_factor m d pr qty =
     (case d of nullptr \<Rightarrow> 1 | Ptr a \<Rightarrow> 1 - DiscountPercent (discount_at m a) pr qty)"

text \<open>The rule of the order's customer, \<open>nullptr\<close> when there is no customer.\<close>

definition spec_buyer_discount :: "memory \<Rightarrow> Order \<Rightarrow> DiscountType ptr" where
  "spec_buyer_discount m ord =
     (case buyer ord of nullptr \<Rightarrow> nullptr | Ptr b \<Rightarrow> Customer.discount (customer_at m b))"

text \<open>
  Unit price times quantity, times the factor of the article's rule, of the line's rule
  and of the customer's rule, in this order, each rule evaluated at the unit price and
  the quantity of the line.
\<close>

definition spec_line_price :: "memory \<Rightarrow> Order \<Rightarrow> OrderLine \<Rightarrow> real" where
  "spec_line_price m ord ol =
     (let p = Article.price (OrderLine.product ol);
          q = real_of_int (OrderLine.quantity ol)
      in p * q
         * spec_factor m (Article.discount (OrderLine.product ol)) p q
         * spec_factor m (OrderLine.discount ol) p q
         * spec_factor m (spec_buyer_discount m ord) p q)"

text \<open>
  Two memories hold the same order graph when they agree on every object that can be
  reached from the order: its customer, and the rules of its customer, of its lines, of
  the articles of its lines, and its own.
\<close>

definition same_rule :: "memory \<Rightarrow> memory \<Rightarrow> DiscountType ptr \<Rightarrow> bool" where
  "same_rule m m' d =
     (case d of nullptr \<Rightarrow> True | Ptr a \<Rightarrow> discount_at m a = discount_at m' a)"

definition same_order_graph :: "memory \<Rightarrow> memory \<Rightarrow> Order \<Rightarrow> bool" where
  "same_order_graph m m' ord =
     ((case buyer ord of
         nullptr \<Rightarrow> True
       | Ptr b \<Rightarrow> customer_at m b = customer_at m' b
                  \<and> same_rule m m' (Customer.discount (customer_at m b)))
      \<and> same_rule m m' (Order.discount ord)
      \<and> list_all (\<lambda>ol. same_rule m m' (Article.discount (OrderLine.product ol))
                       \<and> same_rule m m' (OrderLine.discount ol)) (lines ord))"

text \<open>A rule whose fraction lies between 0 and 1; a missing rule has nothing to check.\<close>

definition fraction_in_range :: "memory \<Rightarrow> DiscountType ptr \<Rightarrow> bool" where
  "fraction_in_range m d =
     (case d of
        nullptr \<Rightarrow> True
      | Ptr a \<Rightarrow> 0 \<le> DiscountType.discount (discount_at m a)
                 \<and> DiscountType.discount (discount_at m a) \<le> 1)"

text \<open>
  An order with non-negative unit prices and quantities, all of whose attached rules have
  a fraction between 0 and 1.
\<close>

definition well_formed_order :: "memory \<Rightarrow> Order \<Rightarrow> bool" where
  "well_formed_order m ord =
     (fraction_in_range m (spec_buyer_discount m ord)
      \<and> fraction_in_range m (Order.discount ord)
      \<and> list_all (\<lambda>ol. 0 \<le> Article.price (OrderLine.product ol)
                       \<and> 0 \<le> OrderLine.quantity ol
                       \<and> fraction_in_range m (Article.discount (OrderLine.product ol))
                       \<and> fraction_in_range m (OrderLine.discount ol)) (lines ord))"

subsection \<open>IEEE 754 doubles: rounding, range, infinities and NaN\<close>

text \<open>
  A double is a finite number, an infinity or NaN. A finite double is taken for the real
  number it stands for; the sign of zero and the payload of NaN are not modelled.
\<close>

datatype double = Finite real | PlusInf | MinusInf | NaN

text \<open>The largest finite double.\<close>

definition DBL_MAX :: real where
  "DBL_MAX = 2 ^ 1024 - 2 ^ 971"

text \<open>
  The rounding of a real number to a double with unbounded exponent is a parameter \<open>rnd\<close>
  of the model. The proofs use of it what holds of rounding to nearest (and of the other
  rounding modes of IEEE 754): it is monotone, it leaves 0 and 1 as they are, and it
  leaves a rounded number as it is.
\<close>

definition rounding :: "(real \<Rightarrow> real) \<Rightarrow> bool" where
  "rounding rnd = (mono rnd \<and> rnd 0 = 0 \<and> rnd 1 = 1 \<and> (\<forall>x. rnd (rnd x) = rnd x))"

text \<open>
  The result of an operation on finite doubles: the exact result is rounded, and a rounded
  result beyond the largest double is an infinity.
\<close>

definition to_double :: "(real \<Rightarrow> real) \<Rightarrow> real \<Rightarrow> double" where
  "to_double rnd x =
     (if DBL_MAX < rnd x then PlusInf
      else if rnd x < - DBL_MAX then MinusInf
      else Finite (rnd x))"

text \<open>Plus infinity times a finite number.\<close>

definition inf_times :: "real \<Rightarrow> double" where
  "inf_times x = (if x = 0 then NaN else if 0 < x then PlusInf else MinusInf)"

text \<open>Negation, \<open>*\<close>, \<open>+\<close>, \<open>-\<close> and \<open>>=\<close> on doubles, as IEEE 754 defines them.\<close>

fun dneg :: "double \<Rightarrow> double" where
  "dneg (Finite x) = Finite (- x)"
| "dneg PlusInf = MinusInf"
| "dneg MinusInf = PlusInf"
| "dneg NaN = NaN"

fun dmul :: "(real \<Rightarrow> real) \<Rightarrow> double \<Rightarrow> double \<Rightarrow> double" where
  "dmul rnd (Finite x) (Finite y) = to_double rnd (x * y)"
| "dmul rnd (Finite x) PlusInf = inf_times x"
| "dmul rnd (Finite x) MinusInf = inf_times (- x)"
| "dmul rnd PlusInf (Finite y) = inf_times y"
| "dmul rnd MinusInf (Finite y) = inf_times (- y)"
| "dmul rnd PlusInf PlusInf = PlusInf"
| "dmul rnd PlusInf MinusInf = MinusInf"
| "dmul rnd MinusInf PlusInf = MinusInf"
| "dmul rnd MinusInf MinusInf = PlusInf"
| "dmul rnd NaN y = NaN"
| "dmul rnd x NaN = NaN"

fun dadd :: "(real \<Rightarrow> real) \<Rightarrow> double \<Rightarrow> double \<Rightarrow> double" where
  "dadd rnd (Finite x) (Finite y) = to_double rnd (x + y)"
| "dadd rnd (Finite x) PlusInf = PlusInf"
| "dadd rnd (Finite x) MinusInf = MinusInf"
| "dadd rnd PlusInf (Finite y) = PlusInf"
| "dadd rnd MinusInf (Finite y) = MinusInf"
| "dadd rnd PlusInf PlusInf = PlusInf"
| "dadd rnd PlusInf MinusInf = NaN"
| "dadd rnd MinusInf PlusInf = NaN"
| "dadd rnd MinusInf MinusInf = MinusInf"
| "dadd rnd NaN y = NaN"
| "dadd rnd x NaN = NaN"

definition dsub :: "(real \<Rightarrow> real) \<Rightarrow> double \<Rightarrow> double \<Rightarrow> double" where
  "dsub rnd x y = dadd rnd x (dneg y)"

fun dge :: "double \<Rightarrow> double \<Rightarrow> bool" where
  "dge (Finite x) (Finite y) = (x \<ge> y)"
| "dge (Finite x) PlusInf = False"
| "dge (Finite x) MinusInf = True"
| "dge PlusInf (Finite y) = True"
| "dge MinusInf (Finite y) = False"
| "dge PlusInf PlusInf = True"
| "dge PlusInf MinusInf = True"
| "dge MinusInf PlusInf = False"
| "dge MinusInf MinusInf = True"
| "dge NaN y = False"
| "dge x NaN = False"

text \<open>
  The four \<open>DiscountPercent\<close> methods on doubles. The fields of a rule are finite doubles;
  the arguments are any doubles: at the level of the order the unit price argument is the
  sum of the lines, which can be an infinity or NaN.
\<close>

fun DiscountPercent_double ::
    "(real \<Rightarrow> real) \<Rightarrow> DiscountType \<Rightarrow> double \<Rightarrow> double \<Rightarrow> double" where
  "DiscountPercent_double rnd (FixedDiscount d) pr qty = Finite d"
| "DiscountPercent_double rnd (VolumeDiscount min_q d) pr qty =
     (if dge qty (Finite min_q) then Finite d else Finite 0)"
| "DiscountPercent_double rnd (PriceDiscount min_total d) pr qty =
     (if dge (dmul rnd pr qty) (Finite min_total) then Finite d else Finite 0)"
| "DiscountPercent_double rnd (AmountDiscount min_total d) pr qty =
     (if dge pr (Finite min_total) then Finite d else Finite 0)"

text \<open>
  \<open>CalculatePrice\<close> on doubles: the definitions of \<open>apply_discount\<close>, \<open>line_step\<close>,
  \<open>for_lines\<close> and \<open>CalculatePrice\<close> above with the arithmetic of doubles. Unit prices
  are finite doubles and the conversion of a quantity from \<open>int\<close> is exact.
\<close>

definition apply_discount_double ::
    "(real \<Rightarrow> real) \<Rightarrow> memory \<Rightarrow> DiscountType ptr \<Rightarrow> double \<Rightarrow> double \<Rightarrow> double
       \<Rightarrow> error + double" where
  "apply_discount_double rnd m d pr qty amount =
     and_then (deref_discount m d)
       (\<lambda>rule. Inr (dmul rnd amount
                     (dsub rnd (Finite 1) (DiscountPercent_double rnd rule pr qty))))"

definition line_step_double ::
    "(real \<Rightarrow> real) \<Rightarrow> memory \<Rightarrow> Order \<Rightarrow> OrderLine \<Rightarrow> double
       \<Rightarrow> error + double" where
  "line_step_double rnd m ord ol running =
     (let p = Finite (Article.price (OrderLine.product ol));
          q = Finite (real_of_int (OrderLine.quantity ol));
          line_price = dmul rnd p q
      in and_then
           (if Article.discount (OrderLine.product ol) \<noteq> nullptr
            then apply_discount_double rnd m (Article.discount (OrderLine.product ol)) p q
                   line_price
            else Inr line_price)
        (\<lambda>line_price. and_then
           (if OrderLine.discount ol \<noteq> nullptr
            then apply_discount_double rnd m (OrderLine.discount ol) p q line_price
            else Inr line_price)
        (\<lambda>line_price. and_then
           (and_then (buyer_has_discount m ord)
              (\<lambda>c. if c
                 then and_then (deref_customer m (buyer ord))
                        (\<lambda>b. apply_discount_double rnd m (Customer.discount b) p q
                               line_price)
                 else Inr line_price))
        (\<lambda>line_price. Inr (dadd rnd running line_price)))))"

fun for_lines_double ::
    "(real \<Rightarrow> real) \<Rightarrow> memory \<Rightarrow> Order \<Rightarrow> OrderLine list \<Rightarrow> double
       \<Rightarrow> error + double" where
  "for_lines_double rnd m ord [] running = Inr running"
| "for_lines_double rnd m ord (ol # rest) running =
     and_then (line_step_double rnd m ord ol running) (for_lines_double rnd m ord rest)"

definition CalculatePrice_double ::
    "(real \<Rightarrow> real) \<Rightarrow> memory \<Rightarrow> Order \<Rightarrow> error + double" where
  "CalculatePrice_double rnd m ord =
     and_then (for_lines_double rnd m ord (lines ord) (Finite 0))
       (\<lambda>running.
          if Order.discount ord \<noteq> nullptr
          then apply_discount_double rnd m (Order.discount ord) running (Finite 0) running
          else Inr running)"

text \<open>
  An order whose only line overflows: unit price \<open>2 ^ 1023\<close>, quantity 2, and an article
  rule \<open>FixedDiscount(1.0)\<close>; no customer, no rule on the line or on the order. All its
  numbers are doubles and no operation on them rounds.
\<close>

definition overflow_memory :: memory where
  "overflow_memory = \<lparr>discount_at = (\<lambda>a. FixedDiscount 1), customer_at = (\<lambda>a. c1)\<rparr>"

definition overflow_order :: Order where
  "overflow_order =
     \<lparr>Order.id = 1, buyer = nullptr,
      lines = [\<lparr>OrderLine.product =
                  \<lparr>Article.id = 1, name = ''ingot'', price = 2 ^ 1023, unit = PIECE,
                   discount = Ptr 1\<rparr>,
                quantity = 2, discount = nullptr\<rparr>],
      discount = nullptr\<rparr>"

text \<open>A double that is not below zero: a non-negative number, plus infinity, or NaN.\<close>

fun not_negative :: "double \<Rightarrow> bool" where
  "not_negative (Finite x) = (0 \<le> x)"
| "not_negative PlusInf = True"
| "not_negative MinusInf = False"
| "not_negative NaN = True"

text \<open>A finite double is a rounded number within the range; every result is one.\<close>

fun in_range :: "(real \<Rightarrow> real) \<Rightarrow> double \<Rightarrow> bool" where
  "in_range rnd (Finite x) = (\<bar>x\<bar> \<le> DBL_MAX \<and> rnd x = x)"
| "in_range rnd PlusInf = True"
| "in_range rnd MinusInf = True"
| "in_range rnd NaN = True"

section \<open>Verification\<close>

subsection \<open>The code computes what the specification describes\<close>

lemma guarded_apply_discount:
  "(if d \<noteq> nullptr then apply_discount m d pr qty x else Inr x)
     = Inr (x * spec_factor m d pr qty)"
  by (cases d) (simp_all add: apply_discount_def spec_factor_def)

lemma buyer_discount_step:
  "and_then (buyer_has_discount m ord)
     (\<lambda>c. if c
        then and_then (deref_customer m (buyer ord))
               (\<lambda>b. apply_discount m (Customer.discount b) pr qty x)
        else Inr x)
   = Inr (x * spec_factor m (spec_buyer_discount m ord) pr qty)"
proof (cases "buyer ord")
  case nullptr
  then show ?thesis
    by (simp add: buyer_has_discount_def spec_buyer_discount_def spec_factor_def)
next
  case (Ptr b)
  then show ?thesis
    by (cases "Customer.discount (customer_at m b)")
       (simp_all add: buyer_has_discount_def spec_buyer_discount_def spec_factor_def
          apply_discount_def)
qed

lemma line_step_eq:
  "line_step m ord ol running = Inr (running + spec_line_price m ord ol)"
  by (simp add: line_step_def spec_line_price_def Let_def guarded_apply_discount
        buyer_discount_step)

lemma for_lines_eq:
  "for_lines m ord ls running
     = Inr (running + sum_list (map (spec_line_price m ord) ls))"
  by (induction ls arbitrary: running) (simp_all add: line_step_eq add.assoc)

lemma CalculatePrice_eq:
  "CalculatePrice m ord =
     Inr (sum_list (map (spec_line_price m ord) (lines ord))
          * spec_factor m (Order.discount ord)
              (sum_list (map (spec_line_price m ord) (lines ord))) 0)"
  by (simp add: CalculatePrice_def for_lines_eq guarded_apply_discount)

lemma spec_factor_nullptr: "spec_factor m nullptr pr qty = 1"
  by (simp add: spec_factor_def)

lemma spec_factor_Ptr:
  "spec_factor m (Ptr a) pr qty = 1 - DiscountPercent (discount_at m a) pr qty"
  by (simp add: spec_factor_def)

lemma spec_buyer_discount_nullptr:
  "buyer ord = nullptr \<Longrightarrow> spec_buyer_discount m ord = nullptr"
  by (simp add: spec_buyer_discount_def)

lemma spec_buyer_discount_Ptr:
  "buyer ord = Ptr b \<Longrightarrow> spec_buyer_discount m ord = Customer.discount (customer_at m b)"
  by (simp add: spec_buyer_discount_def)

text \<open>
  Claim C1. A line adds to the running sum its unit price times its quantity, multiplied
  by \<open>1 - f\<close> for each attached rule (article, line, customer, in this order), every
  \<open>f\<close> being the rule evaluated at the unit price and the quantity of the line, never at
  a reduced price. In particular one line with a fixed rule \<open>f1\<close> on its article and a
  fixed rule \<open>f2\<close> on its customer costs \<open>p * q * (1 - f1) * (1 - f2)\<close>, which differs
  from \<open>p * q * (1 - (f1 + f2))\<close> unless \<open>p * q * f1 * f2 = 0\<close>.
\<close>

theorem line_discounts_stack_multiplicatively:
  "line_step m ord ol running = Inr (running + spec_line_price m ord ol)
   \<and> (lines ord = [ol] \<and> Order.discount ord = nullptr
        \<and> Article.discount (OrderLine.product ol) = Ptr a
        \<and> discount_at m a = FixedDiscount f1
        \<and> OrderLine.discount ol = nullptr
        \<and> buyer ord = Ptr b \<and> Customer.discount (customer_at m b) = Ptr c
        \<and> discount_at m c = FixedDiscount f2
      \<longrightarrow> CalculatePrice m ord
            = Inr (Article.price (OrderLine.product ol) * real_of_int (OrderLine.quantity ol)
                   * (1 - f1) * (1 - f2))
          \<and> (Article.price (OrderLine.product ol) * real_of_int (OrderLine.quantity ol)
                * f1 * f2 \<noteq> 0
             \<longrightarrow> CalculatePrice m ord
                 \<noteq> Inr (Article.price (OrderLine.product ol)
                        * real_of_int (OrderLine.quantity ol) * (1 - (f1 + f2)))))"
proof (intro conjI impI)
  show "line_step m ord ol running = Inr (running + spec_line_price m ord ol)"
    by (rule line_step_eq)
next
  assume h: "lines ord = [ol] \<and> Order.discount ord = nullptr
        \<and> Article.discount (OrderLine.product ol) = Ptr a
        \<and> discount_at m a = FixedDiscount f1
        \<and> OrderLine.discount ol = nullptr
        \<and> buyer ord = Ptr b \<and> Customer.discount (customer_at m b) = Ptr c
        \<and> discount_at m c = FixedDiscount f2"
  then show eq: "CalculatePrice m ord
            = Inr (Article.price (OrderLine.product ol) * real_of_int (OrderLine.quantity ol)
                   * (1 - f1) * (1 - f2))"
    by (simp add: CalculatePrice_eq spec_line_price_def spec_factor_def
          spec_buyer_discount_def)
  assume "Article.price (OrderLine.product ol) * real_of_int (OrderLine.quantity ol)
                * f1 * f2 \<noteq> 0"
  then show "CalculatePrice m ord
                 \<noteq> Inr (Article.price (OrderLine.product ol)
                        * real_of_int (OrderLine.quantity ol) * (1 - (f1 + f2)))"
    unfolding eq by (simp add: algebra_simps)
qed

theorem line_discounts_stack_multiplicatively_witness:
  "lines o4 = [\<lparr>OrderLine.product = a2, quantity = 1, discount = nullptr\<rparr>]
   \<and> Article.discount a2 = Ptr 1 \<and> discount_at main_memory 1 = FixedDiscount 0.1
   \<and> buyer o4 = Ptr 2 \<and> Customer.discount (customer_at main_memory 2) = Ptr 1
   \<and> CalculatePrice main_memory o4 = Inr (15 * 1 * (1 - 0.1) * (1 - 0.1))
   \<and> CalculatePrice main_memory o4 \<noteq> Inr (15 * 1 * (1 - (0.1 + 0.1)))"
  using line_discounts_stack_multiplicatively
    [of main_memory o4 "\<lparr>OrderLine.product = a2, quantity = 1, discount = nullptr\<rparr>"
        0 1 "0.1" 2 1 "0.1"]
  by (simp add: o4_def a2_def main_memory_def c2_def d1_def)

subsection \<open>The order's own rule\<close>

text \<open>
  Claim C2. When the order carries a rule, the loop over the lines returns the sum \<open>S\<close> of
  the discounted line prices, which is also the price of the same order without its rule,
  and the rule is applied once, to \<open>S\<close>, evaluated at unit price \<open>S\<close> and quantity 0:
  the result is \<open>S * (1 - f)\<close>. A volume rule with a positive minimum quantity therefore
  leaves \<open>S\<close> unchanged.
\<close>

theorem order_discount_applied_once_to_sum:
  assumes "Order.discount ord = Ptr a"
  shows "\<exists>S. for_lines m ord (lines ord) 0 = Inr S
           \<and> S = sum_list (map (spec_line_price m ord) (lines ord))
           \<and> CalculatePrice m (ord\<lparr>Order.discount := nullptr\<rparr>) = Inr S
           \<and> CalculatePrice m ord = Inr (S * (1 - DiscountPercent (discount_at m a) S 0))
           \<and> (\<forall>min_q f. discount_at m a = VolumeDiscount min_q f \<and> 0 < min_q
                 \<longrightarrow> CalculatePrice m ord = Inr S)"
proof -
  define S where "S = sum_list (map (spec_line_price m ord) (lines ord))"
  have loop: "for_lines m ord (lines ord) 0 = Inr S"
    by (simp add: for_lines_eq S_def)
  have same_lines:
    "spec_line_price m (ord\<lparr>Order.discount := nullptr\<rparr>) = spec_line_price m ord"
    by (rule ext) (simp add: spec_line_price_def spec_buyer_discount_def)
  have without: "CalculatePrice m (ord\<lparr>Order.discount := nullptr\<rparr>) = Inr S"
    by (simp add: CalculatePrice_eq same_lines spec_factor_nullptr S_def)
  have with_rule:
    "CalculatePrice m ord = Inr (S * (1 - DiscountPercent (discount_at m a) S 0))"
    using assms by (simp add: CalculatePrice_eq spec_factor_Ptr S_def)
  have volume: "CalculatePrice m ord = Inr S"
    if "discount_at m a = VolumeDiscount min_q f \<and> 0 < min_q" for min_q f
    using that by (simp add: with_rule)
  from loop without with_rule volume show ?thesis
    using S_def by blast
qed

theorem order_discount_applied_once_to_sum_witness:
  "Order.discount (o9\<lparr>Order.discount := Ptr 2\<rparr>) = Ptr 2
   \<and> discount_at main_memory 2 = VolumeDiscount 10 0.15 \<and> (0::real) < 10
   \<and> CalculatePrice main_memory (o9\<lparr>Order.discount := nullptr\<rparr>) = Inr 230.85
   \<and> CalculatePrice main_memory (o9\<lparr>Order.discount := Ptr 2\<rparr>) = Inr 230.85"
proof -
  have h: "Order.discount (o9\<lparr>Order.discount := Ptr 2\<rparr>) = Ptr 2"
    by simp
  have v: "discount_at main_memory 2 = VolumeDiscount 10 0.15 \<and> (0::real) < 10"
    by (simp add: main_memory_def d2_def)
  have e: "o9\<lparr>Order.discount := Ptr 2, Order.discount := nullptr\<rparr>
             = o9\<lparr>Order.discount := nullptr\<rparr>"
    by simp
  have l: "for_lines main_memory (o9\<lparr>Order.discount := Ptr 2\<rparr>) (lines o9) 0 = Inr 230.85"
    by (simp add: o9_def a2_def main_memory_def c3_def d1_def d3_def line_step_def
          apply_discount_def buyer_has_discount_def)
  from order_discount_applied_once_to_sum [OF h, of main_memory]
  obtain S where
        loop: "for_lines main_memory (o9\<lparr>Order.discount := Ptr 2\<rparr>)
                 (lines (o9\<lparr>Order.discount := Ptr 2\<rparr>)) 0 = Inr S"
    and without: "CalculatePrice main_memory
                    (o9\<lparr>Order.discount := Ptr 2, Order.discount := nullptr\<rparr>) = Inr S"
    and volume: "\<forall>min_q f. discount_at main_memory 2 = VolumeDiscount min_q f \<and> 0 < min_q
                   \<longrightarrow> CalculatePrice main_memory (o9\<lparr>Order.discount := Ptr 2\<rparr>) = Inr S"
    by blast
  from loop l have S: "S = 230.85"
    by simp
  from volume v have "CalculatePrice main_memory (o9\<lparr>Order.discount := Ptr 2\<rparr>) = Inr S"
    by blast
  with without h v show ?thesis
    unfolding e S by simp
qed

subsection \<open>The last two assertions of \<open>main\<close>\<close>

text \<open>
  Claim C3. The order \<open>o9\<close> (one line, unit price 15, quantity 20, fixed rule 0.1 on the
  article and on the line, a customer with a price threshold rule (100, 0.05), an amount
  threshold rule (100, 0.05) on the order) costs 219.3075 within the tolerance 0.001, and
  the order \<open>o8\<close>, the same without the order's rule, costs 230.85 within the tolerance.
\<close>

theorem main_assertions_o8_o9:
  "assert_price main_memory o9 219.3075 \<and> assert_price main_memory o8 230.85"
  by (simp add: assert_price_def AreEqual_def CalculatePrice_def line_step_def
        apply_discount_def buyer_has_discount_def o9_def o8_def a2_def main_memory_def
        c3_def d1_def d3_def d4_def)

text \<open>The seven assertions of \<open>main\<close> before them hold in the model as well.\<close>

lemma main_assertions_o1_to_o7:
  "assert_price main_memory o1 5 \<and> assert_price main_memory o2 4.5
   \<and> assert_price main_memory o3 13.5 \<and> assert_price main_memory o4 12.15
   \<and> assert_price main_memory o5 10 \<and> assert_price main_memory o6 127.5
   \<and> assert_price main_memory o7 121.125"
  by (simp add: assert_price_def AreEqual_def CalculatePrice_def line_step_def
        apply_discount_def buyer_has_discount_def o1_def o2_def o3_def o4_def o5_def o6_def
        o7_def a1_def a2_def a3_def main_memory_def c1_def c2_def c3_def d1_def d2_def d3_def)

subsection \<open>Orders without any rule\<close>

text \<open>
  Claim C4. When no rule is attached to the order, to its customer, to any of its lines or
  to the article of any of its lines, the price is the sum over the lines of unit price
  times quantity.
\<close>

theorem no_discounts_total_is_plain_sum:
  assumes lines_plain:
      "\<forall>ol\<in>set (lines ord). Article.discount (OrderLine.product ol) = nullptr
                              \<and> OrderLine.discount ol = nullptr"
    and order_plain: "Order.discount ord = nullptr"
    and buyer_plain: "\<forall>b. buyer ord = Ptr b \<longrightarrow> Customer.discount (customer_at m b) = nullptr"
  shows "CalculatePrice m ord
           = Inr (\<Sum>ol\<leftarrow>lines ord. Article.price (OrderLine.product ol)
                                      * real_of_int (OrderLine.quantity ol))"
proof -
  have b: "spec_buyer_discount m ord = nullptr"
    using buyer_plain by (cases "buyer ord") (simp_all add: spec_buyer_discount_def)
  have "spec_line_price m ord ol
          = Article.price (OrderLine.product ol) * real_of_int (OrderLine.quantity ol)"
    if "ol \<in> set (lines ord)" for ol
    using that lines_plain by (simp add: spec_line_price_def b spec_factor_nullptr)
  then have "sum_list (map (spec_line_price m ord) (lines ord))
          = (\<Sum>ol\<leftarrow>lines ord. Article.price (OrderLine.product ol)
                                   * real_of_int (OrderLine.quantity ol))"
    by (intro arg_cong [of _ _ sum_list]) simp
  then show ?thesis
    by (simp only: CalculatePrice_eq order_plain spec_factor_nullptr mult_1_right)
qed

theorem no_discounts_total_is_plain_sum_witness:
  "lines (o1\<lparr>lines := [\<lparr>OrderLine.product = a1, quantity = 1, discount = nullptr\<rparr>,
                         \<lparr>OrderLine.product = a1, quantity = 3, discount = nullptr\<rparr>]\<rparr>)
     = [\<lparr>OrderLine.product = a1, quantity = 1, discount = nullptr\<rparr>,
        \<lparr>OrderLine.product = a1, quantity = 3, discount = nullptr\<rparr>]
   \<and> Article.discount a1 = nullptr \<and> Order.discount o1 = nullptr
   \<and> buyer o1 = Ptr 1 \<and> Customer.discount (customer_at main_memory 1) = nullptr
   \<and> CalculatePrice main_memory
        (o1\<lparr>lines := [\<lparr>OrderLine.product = a1, quantity = 1, discount = nullptr\<rparr>,
                      \<lparr>OrderLine.product = a1, quantity = 3, discount = nullptr\<rparr>]\<rparr>)
      = Inr (5 * 1 + 5 * 3)"
  using no_discounts_total_is_plain_sum
    [of "o1\<lparr>lines := [\<lparr>OrderLine.product = a1, quantity = 1, discount = nullptr\<rparr>,
                      \<lparr>OrderLine.product = a1, quantity = 3, discount = nullptr\<rparr>]\<rparr>"
        main_memory]
  by (simp add: o1_def a1_def main_memory_def c1_def)

subsection \<open>The volume rule\<close>

text \<open>
  Claim C5. A volume rule with minimum quantity \<open>min_q\<close> and fraction \<open>f\<close> evaluates to
  \<open>f\<close> when the quantity is at least \<open>min_q\<close>, in particular at \<open>min_q\<close> itself, and to
  0 when the quantity is below \<open>min_q\<close>, whatever the unit price.
\<close>

theorem VolumeDiscount_threshold:
  "(min_q \<le> q \<longrightarrow> DiscountPercent (VolumeDiscount min_q f) p q = f)
   \<and> (q < min_q \<longrightarrow> DiscountPercent (VolumeDiscount min_q f) p q = 0)
   \<and> DiscountPercent (VolumeDiscount min_q f) p min_q = f"
  by simp

theorem VolumeDiscount_threshold_witness:
  "(10::real) \<le> 15 \<and> DiscountPercent d2 10 15 = 0.15
   \<and> (1::real) < 10 \<and> DiscountPercent d2 10 1 = 0
   \<and> DiscountPercent d2 10 10 = 0.15"
  using VolumeDiscount_threshold [of 10 15 "0.15" 10]
        VolumeDiscount_threshold [of 10 1 "0.15" 10]
  by (simp add: d2_def)

subsection \<open>Totality and purity\<close>

lemma spec_factor_same_rule:
  "same_rule m m' d \<Longrightarrow> spec_factor m d pr qty = spec_factor m' d pr qty"
  by (cases d) (simp_all add: same_rule_def spec_factor_def)

text \<open>
  Claim C6. Pricing never fails: for every memory and every order \<open>CalculatePrice\<close> returns
  a price, and so does every pass through the loop body. The loop over an empty line
  sequence returns the sum 0; a missing rule of the order leaves the sum of the lines as
  it is; and a missing rule of the article, of the line or of the customer (no customer,
  or a customer without a rule) drops that factor from the line, that is, it counts as
  the factor 1.
\<close>

theorem CalculatePrice_has_no_error_path:
  "(\<exists>t. CalculatePrice m ord = Inr t)
   \<and> (\<exists>t. line_step m ord ol running = Inr t)
   \<and> for_lines m ord [] 0 = Inr 0
   \<and> (Order.discount ord = nullptr
        \<longrightarrow> CalculatePrice m ord = for_lines m ord (lines ord) 0)
   \<and> (Article.discount (OrderLine.product ol) = nullptr
        \<longrightarrow> line_step m ord ol running
            = Inr (running
                   + Article.price (OrderLine.product ol) * real_of_int (OrderLine.quantity ol)
                     * spec_factor m (OrderLine.discount ol)
                         (Article.price (OrderLine.product ol))
                         (real_of_int (OrderLine.quantity ol))
                     * spec_factor m (spec_buyer_discount m ord)
                         (Article.price (OrderLine.product ol))
                         (real_of_int (OrderLine.quantity ol))))
   \<and> (OrderLine.discount ol = nullptr
        \<longrightarrow> line_step m ord ol running
            = Inr (running
                   + Article.price (OrderLine.product ol) * real_of_int (OrderLine.quantity ol)
                     * spec_factor m (Article.discount (OrderLine.product ol))
                         (Article.price (OrderLine.product ol))
                         (real_of_int (OrderLine.quantity ol))
                     * spec_factor m (spec_buyer_discount m ord)
                         (Article.price (OrderLine.product ol))
                         (real_of_int (OrderLine.quantity ol))))
   \<and> (buyer ord = nullptr
          \<or> (\<exists>b. buyer ord = Ptr b \<and> Customer.discount (customer_at m b) = nullptr)
        \<longrightarrow> line_step m ord ol running
            = Inr (running
                   + Article.price (OrderLine.product ol) * real_of_int (OrderLine.quantity ol)
                     * spec_factor m (Article.discount (OrderLine.product ol))
                         (Article.price (OrderLine.product ol))
                         (real_of_int (OrderLine.quantity ol))
                     * spec_factor m (OrderLine.discount ol)
                         (Article.price (OrderLine.product ol))
                         (real_of_int (OrderLine.quantity ol))))
   \<and> (Article.discount (OrderLine.product ol) = nullptr \<and> OrderLine.discount ol = nullptr
        \<and> buyer ord = nullptr
        \<longrightarrow> line_step m ord ol running
            = Inr (running
                   + Article.price (OrderLine.product ol)
                     * real_of_int (OrderLine.quantity ol)))"
proof -
  have total: "\<exists>t. CalculatePrice m ord = Inr t"
    by (simp add: CalculatePrice_eq)
  have line: "\<exists>t. line_step m ord ol running = Inr t"
    by (simp add: line_step_eq)
  have empty: "for_lines m ord [] 0 = Inr 0"
    by simp
  have no_order_rule: "CalculatePrice m ord = for_lines m ord (lines ord) 0"
    if "Order.discount ord = nullptr"
    using that by (simp add: CalculatePrice_def for_lines_eq)
  have no_buyer_rule: "spec_buyer_discount m ord = nullptr"
    if "buyer ord = nullptr
        \<or> (\<exists>b. buyer ord = Ptr b \<and> Customer.discount (customer_at m b) = nullptr)"
    using that by (auto simp add: spec_buyer_discount_def)
  have formula: "line_step m ord ol running
            = Inr (running
                   + Article.price (OrderLine.product ol) * real_of_int (OrderLine.quantity ol)
                     * spec_factor m (Article.discount (OrderLine.product ol))
                         (Article.price (OrderLine.product ol))
                         (real_of_int (OrderLine.quantity ol))
                     * spec_factor m (OrderLine.discount ol)
                         (Article.price (OrderLine.product ol))
                         (real_of_int (OrderLine.quantity ol))
                     * spec_factor m (spec_buyer_discount m ord)
                         (Article.price (OrderLine.product ol))
                         (real_of_int (OrderLine.quantity ol)))"
    by (simp add: line_step_eq spec_line_price_def Let_def)
  show ?thesis
    using total line empty no_order_rule no_buyer_rule
    by (simp add: formula spec_factor_nullptr)
qed

theorem CalculatePrice_has_no_error_path_witness:
  "Order.discount o1 = nullptr \<and> Article.discount a1 = nullptr
   \<and> buyer o1 = Ptr 1 \<and> Customer.discount (customer_at main_memory 1) = nullptr
   \<and> buyer (o1\<lparr>buyer := nullptr\<rparr>) = nullptr
   \<and> CalculatePrice main_memory o1 = Inr 5
   \<and> CalculatePrice main_memory (o1\<lparr>buyer := nullptr\<rparr>) = Inr 5
   \<and> CalculatePrice main_memory (o1\<lparr>lines := []\<rparr>) = Inr 0
   \<and> line_step main_memory o1
        \<lparr>OrderLine.product = a1, quantity = 1, discount = nullptr\<rparr> 0 = Inr 5
   \<and> line_step main_memory (o1\<lparr>buyer := nullptr\<rparr>)
        \<lparr>OrderLine.product = a1, quantity = 1, discount = nullptr\<rparr> 0 = Inr 5"
  using CalculatePrice_has_no_error_path
    [of main_memory o1 "\<lparr>OrderLine.product = a1, quantity = 1, discount = nullptr\<rparr>" 0]
    CalculatePrice_has_no_error_path
    [of main_memory "o1\<lparr>buyer := nullptr\<rparr>"
        "\<lparr>OrderLine.product = a1, quantity = 1, discount = nullptr\<rparr>" 0]
    CalculatePrice_has_no_error_path
    [of main_memory "o1\<lparr>lines := []\<rparr>"
        "\<lparr>OrderLine.product = a1, quantity = 1, discount = nullptr\<rparr>" 0]
  by (simp add: o1_def a1_def main_memory_def c1_def line_step_def buyer_has_discount_def
        spec_factor_def spec_buyer_discount_def)

text \<open>
  Claim C7. \<open>CalculatePrice\<close> is a function of the memory it reads and of the order, it
  writes nothing, and its result depends only on the objects that can be reached from the
  order: two memories that hold the same order graph give the same result, whatever else
  they hold. In particular two evaluations on the same order in an unchanged memory
  agree.
\<close>

theorem CalculatePrice_depends_only_on_order_graph:
  assumes "same_order_graph m m' ord"
  shows "CalculatePrice m ord = CalculatePrice m' ord"
proof -
  from assms have order_rule: "same_rule m m' (Order.discount ord)"
    and line_rules: "\<forall>ol\<in>set (lines ord).
                       same_rule m m' (Article.discount (OrderLine.product ol))
                       \<and> same_rule m m' (OrderLine.discount ol)"
    by (simp_all add: same_order_graph_def list_all_iff)
  from assms have buyer_ptr: "spec_buyer_discount m ord = spec_buyer_discount m' ord"
    and buyer_rule: "same_rule m m' (spec_buyer_discount m ord)"
    by (cases "buyer ord"; simp add: same_order_graph_def spec_buyer_discount_def
          same_rule_def)+
  have "spec_line_price m ord ol = spec_line_price m' ord ol"
    if "ol \<in> set (lines ord)" for ol
    using that line_rules buyer_rule
    by (simp add: spec_line_price_def Let_def buyer_ptr [symmetric]
          spec_factor_same_rule [of m m'])
  then have "sum_list (map (spec_line_price m ord) (lines ord))
               = sum_list (map (spec_line_price m' ord) (lines ord))"
    by (intro arg_cong [of _ _ sum_list]) simp
  with order_rule show ?thesis
    by (simp add: CalculatePrice_eq spec_factor_same_rule [of m m'])
qed

theorem CalculatePrice_depends_only_on_order_graph_witness:
  "same_order_graph main_memory
     (main_memory\<lparr>discount_at := (discount_at main_memory)(2 := FixedDiscount 0.5),
                   customer_at := (customer_at main_memory)(1 := c2)\<rparr>) o9
   \<and> CalculatePrice main_memory o9
       = CalculatePrice
           (main_memory\<lparr>discount_at := (discount_at main_memory)(2 := FixedDiscount 0.5),
                         customer_at := (customer_at main_memory)(1 := c2)\<rparr>) o9"
proof -
  have g: "same_order_graph main_memory
     (main_memory\<lparr>discount_at := (discount_at main_memory)(2 := FixedDiscount 0.5),
                   customer_at := (customer_at main_memory)(1 := c2)\<rparr>) o9"
    by (simp add: same_order_graph_def same_rule_def o9_def a2_def main_memory_def c3_def)
  from g CalculatePrice_depends_only_on_order_graph [OF g] show ?thesis
    by simp
qed

subsection \<open>Rules and prices on doubles\<close>

lemma DBL_MAX_gt_1: "1 < DBL_MAX"
  by (simp add: DBL_MAX_def)

lemma rounding_nonneg: "rounding rnd \<Longrightarrow> 0 \<le> x \<Longrightarrow> 0 \<le> rnd x"
  unfolding rounding_def by (metis monoD)

lemma rounding_le_1: "rounding rnd \<Longrightarrow> x \<le> 1 \<Longrightarrow> rnd x \<le> 1"
  unfolding rounding_def by (metis monoD)

lemma rounding_le_fixed: "rounding rnd \<Longrightarrow> x \<le> s \<Longrightarrow> rnd s = s \<Longrightarrow> rnd x \<le> s"
  unfolding rounding_def by (metis monoD)

lemma to_double_not_negative:
  "rounding rnd \<Longrightarrow> 0 \<le> x \<Longrightarrow> not_negative (to_double rnd x)"
  using DBL_MAX_gt_1 rounding_nonneg [of rnd x] by (simp add: to_double_def)

lemma to_double_in_range: "rounding rnd \<Longrightarrow> in_range rnd (to_double rnd x)"
  by (simp add: to_double_def rounding_def abs_le_iff)

lemma inf_times_in_range: "in_range rnd (inf_times x)"
  by (simp add: inf_times_def)

lemma dmul_in_range: "rounding rnd \<Longrightarrow> in_range rnd (dmul rnd x y)"
  by (cases x; cases y) (simp_all add: to_double_in_range inf_times_in_range)

lemma dadd_in_range: "rounding rnd \<Longrightarrow> in_range rnd (dadd rnd x y)"
  by (cases x; cases y) (simp_all add: to_double_in_range)

lemma not_negative_iff: "not_negative t \<longleftrightarrow> t = NaN \<or> dge t (Finite 0)"
  by (cases t) simp_all

lemma dmul_not_negative:
  "rounding rnd \<Longrightarrow> not_negative x \<Longrightarrow> 0 \<le> c \<Longrightarrow> not_negative (dmul rnd x (Finite c))"
  by (cases x) (simp_all add: to_double_not_negative inf_times_def)

lemma dadd_not_negative:
  "rounding rnd \<Longrightarrow> not_negative x \<Longrightarrow> not_negative y \<Longrightarrow> not_negative (dadd rnd x y)"
  by (cases x; cases y) (simp_all add: to_double_not_negative)

lemma DiscountPercent_double_cases:
  "DiscountPercent_double rnd d p q = Finite (DiscountType.discount d)
   \<or> DiscountPercent_double rnd d p q = Finite 0"
  by (cases d) simp_all

lemma complement_in_unit_interval:
  assumes "rounding rnd"
    and "0 \<le> DiscountType.discount d" and "DiscountType.discount d \<le> 1"
  shows "\<exists>c. dsub rnd (Finite 1) (DiscountPercent_double rnd d p q) = Finite c
             \<and> 0 \<le> c \<and> c \<le> 1"
proof -
  have small: "to_double rnd c = Finite (rnd c) \<and> 0 \<le> rnd c \<and> rnd c \<le> 1"
    if "0 \<le> c" and "c \<le> 1" for c
    using that DBL_MAX_gt_1 rounding_nonneg [OF assms(1), of c]
      rounding_le_1 [OF assms(1), of c]
    by (simp add: to_double_def)
  from DiscountPercent_double_cases [of rnd d p q] show ?thesis
  proof
    assume "DiscountPercent_double rnd d p q = Finite (DiscountType.discount d)"
    with assms small [of "1 - DiscountType.discount d"] show ?thesis
      by (simp add: dsub_def)
  next
    assume "DiscountPercent_double rnd d p q = Finite 0"
    with small [of 1] show ?thesis
      by (simp add: dsub_def)
  qed
qed

lemma guarded_apply_discount_double:
  assumes "rounding rnd" and "fraction_in_range m d" and "not_negative x"
  shows "\<exists>y. (if d \<noteq> nullptr then apply_discount_double rnd m d pr qty x else Inr x) = Inr y
             \<and> not_negative y"
proof (cases d)
  case nullptr
  with assms show ?thesis by simp
next
  case (Ptr a)
  with assms have "0 \<le> DiscountType.discount (discount_at m a)"
    and "DiscountType.discount (discount_at m a) \<le> 1"
    by (simp_all add: fraction_in_range_def)
  from complement_in_unit_interval [OF assms(1) this, of pr qty]
  obtain c
    where "dsub rnd (Finite 1) (DiscountPercent_double rnd (discount_at m a) pr qty)
             = Finite c"
      and "0 \<le> c"
    by blast
  with Ptr assms show ?thesis
    by (simp add: apply_discount_double_def dmul_not_negative)
qed

lemma buyer_discount_step_double:
  assumes "rounding rnd"
    and "fraction_in_range m (spec_buyer_discount m ord)" and "not_negative x"
  shows "\<exists>y. and_then (buyer_has_discount m ord)
               (\<lambda>c. if c
                  then and_then (deref_customer m (buyer ord))
                         (\<lambda>b. apply_discount_double rnd m (Customer.discount b) pr qty x)
                  else Inr x) = Inr y
             \<and> not_negative y"
proof (cases "buyer ord")
  case nullptr
  with assms show ?thesis
    by (simp add: buyer_has_discount_def)
next
  case (Ptr b)
  with assms have "fraction_in_range m (Customer.discount (customer_at m b))"
    by (simp add: spec_buyer_discount_def)
  from guarded_apply_discount_double [OF assms(1) this assms(3), of pr qty] Ptr
  show ?thesis
    by (cases "Customer.discount (customer_at m b) = nullptr")
       (simp_all add: buyer_has_discount_def)
qed

lemma line_step_double_not_negative:
  assumes "rounding rnd"
    and "0 \<le> Article.price (OrderLine.product ol)"
    and "0 \<le> OrderLine.quantity ol"
    and "fraction_in_range m (Article.discount (OrderLine.product ol))"
    and "fraction_in_range m (OrderLine.discount ol)"
    and "fraction_in_range m (spec_buyer_discount m ord)"
    and "not_negative running"
  shows "\<exists>t. line_step_double rnd m ord ol running = Inr t
             \<and> not_negative t \<and> in_range rnd t"
proof -
  define p where "p = Finite (Article.price (OrderLine.product ol))"
  define q where "q = Finite (real_of_int (OrderLine.quantity ol))"
  from assms(1,2,3) have "not_negative (dmul rnd p q)"
    by (simp add: p_def q_def to_double_not_negative)
  from guarded_apply_discount_double [OF assms(1) assms(4) this, of p q]
  obtain x1 where s1: "(if Article.discount (OrderLine.product ol) \<noteq> nullptr
            then apply_discount_double rnd m (Article.discount (OrderLine.product ol)) p q
                   (dmul rnd p q)
            else Inr (dmul rnd p q)) = Inr x1" and n1: "not_negative x1"
    by blast
  from guarded_apply_discount_double [OF assms(1) assms(5) n1, of p q]
  obtain x2 where s2: "(if OrderLine.discount ol \<noteq> nullptr
            then apply_discount_double rnd m (OrderLine.discount ol) p q x1
            else Inr x1) = Inr x2" and n2: "not_negative x2"
    by blast
  from buyer_discount_step_double [OF assms(1) assms(6) n2, of p q]
  obtain x3 where s3: "and_then (buyer_has_discount m ord)
               (\<lambda>c. if c
                  then and_then (deref_customer m (buyer ord))
                         (\<lambda>b. apply_discount_double rnd m (Customer.discount b) p q x2)
                  else Inr x2) = Inr x3" and n3: "not_negative x3"
    by blast
  have "line_step_double rnd m ord ol running = Inr (dadd rnd running x3)"
    unfolding line_step_double_def Let_def p_def [symmetric] q_def [symmetric]
    by (simp only: s1 s2 s3 and_then.simps)
  with assms(1,7) n3 show ?thesis
    by (simp add: dadd_not_negative dadd_in_range)
qed

lemma for_lines_double_not_negative:
  assumes "rounding rnd"
    and "\<forall>ol\<in>set ls. 0 \<le> Article.price (OrderLine.product ol)
                      \<and> 0 \<le> OrderLine.quantity ol
                      \<and> fraction_in_range m (Article.discount (OrderLine.product ol))
                      \<and> fraction_in_range m (OrderLine.discount ol)"
    and "fraction_in_range m (spec_buyer_discount m ord)"
    and "not_negative running" and "in_range rnd running"
  shows "\<exists>t. for_lines_double rnd m ord ls running = Inr t
             \<and> not_negative t \<and> in_range rnd t"
  using assms
proof (induction ls arbitrary: running)
  case Nil
  then show ?case by simp
next
  case (Cons ol rest)
  from Cons.prems have "\<exists>t. line_step_double rnd m ord ol running = Inr t
                            \<and> not_negative t \<and> in_range rnd t"
    by (intro line_step_double_not_negative) simp_all
  then obtain t where step: "line_step_double rnd m ord ol running = Inr t"
    and "not_negative t" and "in_range rnd t"
    by blast
  with Cons.prems have "\<exists>u. for_lines_double rnd m ord rest t = Inr u
                           \<and> not_negative u \<and> in_range rnd u"
    by (intro Cons.IH) simp_all
  with step show ?case by simp
qed


lemma dge_to_double:
  assumes "\<bar>t\<bar> \<le> DBL_MAX"
  shows "dge (to_double rnd z) (Finite t) \<longleftrightarrow> t \<le> rnd z"
  using assms by (auto simp add: to_double_def abs_le_iff)

text \<open>
  Claim C8. \<open>DiscountPercent\<close> is defined for each of the four rules and for every pair
  of doubles, finite of either sign, infinite or NaN; it has no error result and reads
  nothing but the fields of its rule and its two arguments. It always returns a fraction:
  the one its rule was constructed with, or 0, and never an infinity or NaN, whatever
  \<open>price * quantity\<close> comes to. Nothing checks the arguments: on finite arguments,
  negative ones included, the comparison of the rule alone decides (the fixed rule
  ignores them; the price rule compares the rounded product); NaN makes every comparison
  false, hence 0, as does the NaN that is infinity times 0; an infinity is compared like
  a number beyond all others.
\<close>

theorem DiscountPercent_double_total:
  "(DiscountPercent_double rnd d p q = Finite (DiscountType.discount d)
      \<or> DiscountPercent_double rnd d p q = Finite 0)
   \<and> DiscountPercent_double rnd (FixedDiscount f) p q = Finite f
   \<and> DiscountPercent_double rnd (VolumeDiscount t f) p (Finite y)
       = Finite (if t \<le> y then f else 0)
   \<and> DiscountPercent_double rnd (AmountDiscount t f) (Finite x) q
       = Finite (if t \<le> x then f else 0)
   \<and> (\<bar>t\<bar> \<le> DBL_MAX
        \<longrightarrow> DiscountPercent_double rnd (PriceDiscount t f) (Finite x) (Finite y)
            = Finite (if t \<le> rnd (x * y) then f else 0))
   \<and> DiscountPercent_double rnd (VolumeDiscount t f) p NaN = Finite 0
   \<and> DiscountPercent_double rnd (AmountDiscount t f) NaN q = Finite 0
   \<and> DiscountPercent_double rnd (PriceDiscount t f) NaN q = Finite 0
   \<and> DiscountPercent_double rnd (PriceDiscount t f) p NaN = Finite 0
   \<and> DiscountPercent_double rnd (PriceDiscount t f) PlusInf (Finite 0) = Finite 0
   \<and> DiscountPercent_double rnd (VolumeDiscount t f) p PlusInf = Finite f
   \<and> DiscountPercent_double rnd (VolumeDiscount t f) p MinusInf = Finite 0
   \<and> DiscountPercent_double rnd (AmountDiscount t f) PlusInf q = Finite f
   \<and> DiscountPercent_double rnd (AmountDiscount t f) MinusInf q = Finite 0"
proof -
  have either: "DiscountPercent_double rnd d p q = Finite (DiscountType.discount d)
      \<or> DiscountPercent_double rnd d p q = Finite 0"
    by (cases d) simp_all
  have finite_price:
    "DiscountPercent_double rnd (PriceDiscount t f) (Finite x) (Finite y)
            = Finite (if t \<le> rnd (x * y) then f else 0)"
    if "\<bar>t\<bar> \<le> DBL_MAX"
    using that by (simp add: dge_to_double)
  have nan_left: "DiscountPercent_double rnd (PriceDiscount t f) NaN q = Finite 0"
    by simp
  have nan_right: "DiscountPercent_double rnd (PriceDiscount t f) p NaN = Finite 0"
    by (cases p) simp_all
  have inf_zero:
    "DiscountPercent_double rnd (PriceDiscount t f) PlusInf (Finite 0) = Finite 0"
    by (simp add: inf_times_def)
  from either finite_price nan_left nan_right inf_zero show ?thesis
    by simp
qed

theorem DiscountPercent_double_total_witness:
  "\<bar>100\<bar> \<le> DBL_MAX
   \<and> DiscountPercent_double (\<lambda>x. x) d3 (Finite (- 10)) (Finite (- 15)) = Finite 0.05
   \<and> DiscountPercent_double (\<lambda>x. x) d3 (Finite (- 10)) (Finite 15) = Finite 0
   \<and> DiscountPercent_double (\<lambda>x. x) d2 (Finite 10) (Finite (- 15)) = Finite 0
   \<and> DiscountPercent_double (\<lambda>x. x) d4 (Finite (- 5)) (Finite 1) = Finite 0
   \<and> DiscountPercent_double (\<lambda>x. x) (AmountDiscount (- 100) 0.05) (Finite (- 5)) (Finite 1)
       = Finite 0.05"
  using DiscountPercent_double_total
          [where rnd = "\<lambda>x. x" and t = 100 and f = "0.05" and x = "- 10" and y = "- 15"]
        DiscountPercent_double_total
          [where rnd = "\<lambda>x. x" and t = 100 and f = "0.05" and x = "- 10" and y = 15]
        DiscountPercent_double_total
          [where rnd = "\<lambda>x. x" and t = 10 and f = "0.15" and y = "- 15"
             and p = "Finite 10"]
        DiscountPercent_double_total
          [where rnd = "\<lambda>x. x" and t = 100 and f = "0.05" and x = "- 5"
             and q = "Finite 1"]
        DiscountPercent_double_total
          [where rnd = "\<lambda>x. x" and t = "- 100" and f = "0.05" and x = "- 5"
             and q = "Finite 1"]
  by (simp add: d2_def d3_def d4_def DBL_MAX_def)

text \<open>
  On finite arguments and without rounding the two models of \<open>DiscountPercent\<close> agree,
  provided the threshold of a price rule is itself within the range.
\<close>

lemma DiscountPercent_double_agrees:
  assumes "\<forall>t f. d = PriceDiscount t f \<longrightarrow> \<bar>t\<bar> \<le> DBL_MAX"
  shows "DiscountPercent_double (\<lambda>x. x) d (Finite x) (Finite y)
           = Finite (DiscountPercent d x y)"
  using assms by (cases d) (simp_all add: dge_to_double)

text \<open>
  Claim C9, as amended. When every unit price and every quantity of the order is
  non-negative and every attached rule was constructed with a fraction between 0 and 1,
  the price is never below zero: it is a non-negative number, plus infinity, or NaN. When
  moreover the sum of the line prices that the loop computes is finite, so is the price,
  and it is non-negative. This holds for every rounding. The claim as written, a
  non-negative price for every such order, fails after an overflow: infinity times the
  factor \<open>1 - 1\<close> is NaN.
\<close>

theorem CalculatePrice_double_not_negative:
  assumes "rounding rnd" and "well_formed_order m ord"
  shows "(\<exists>t. CalculatePrice_double rnd m ord = Inr t \<and> (t = NaN \<or> dge t (Finite 0)))
       \<and> (\<forall>S. for_lines_double rnd m ord (lines ord) (Finite 0) = Inr (Finite S)
              \<longrightarrow> (\<exists>t. CalculatePrice_double rnd m ord = Inr (Finite t) \<and> 0 \<le> t))"
proof -
  from assms(2) have buyer_ok: "fraction_in_range m (spec_buyer_discount m ord)"
    and order_ok: "fraction_in_range m (Order.discount ord)"
    and lines_ok: "\<forall>ol\<in>set (lines ord).
                      0 \<le> Article.price (OrderLine.product ol)
                      \<and> 0 \<le> OrderLine.quantity ol
                      \<and> fraction_in_range m (Article.discount (OrderLine.product ol))
                      \<and> fraction_in_range m (OrderLine.discount ol)"
    by (simp_all add: well_formed_order_def list_all_iff)
  from assms(1) DBL_MAX_gt_1 have "not_negative (Finite 0)" and "in_range rnd (Finite 0)"
    by (simp_all add: rounding_def)
  from for_lines_double_not_negative [OF assms(1) lines_ok buyer_ok this]
  obtain s where loop: "for_lines_double rnd m ord (lines ord) (Finite 0) = Inr s"
    and s_sign: "not_negative s" and s_range: "in_range rnd s"
    by blast
  have result: "CalculatePrice_double rnd m ord
      = (if Order.discount ord \<noteq> nullptr
         then apply_discount_double rnd m (Order.discount ord) s (Finite 0) s
         else Inr s)"
    by (simp add: CalculatePrice_double_def loop)
  from guarded_apply_discount_double [OF assms(1) order_ok s_sign, of s "Finite 0"] result
  have first: "\<exists>t. CalculatePrice_double rnd m ord = Inr t \<and> (t = NaN \<or> dge t (Finite 0))"
    by (simp add: not_negative_iff)
  have second: "\<exists>t. CalculatePrice_double rnd m ord = Inr (Finite t) \<and> 0 \<le> t"
    if "for_lines_double rnd m ord (lines ord) (Finite 0) = Inr (Finite S)" for S
  proof -
    from that loop have s: "s = Finite S" by simp
    with s_sign s_range have S: "0 \<le> S" "S \<le> DBL_MAX" "rnd S = S"
      by simp_all
    show ?thesis
    proof (cases "Order.discount ord")
      case nullptr
      with result s S show ?thesis by simp
    next
      case (Ptr a)
      with order_ok have "0 \<le> DiscountType.discount (discount_at m a)"
        and "DiscountType.discount (discount_at m a) \<le> 1"
        by (simp_all add: fraction_in_range_def)
      from complement_in_unit_interval [OF assms(1) this, of s "Finite 0"]
      obtain c
        where c: "dsub rnd (Finite 1)
                    (DiscountPercent_double rnd (discount_at m a) s (Finite 0)) = Finite c"
          and "0 \<le> c" and "c \<le> 1"
        by blast
      with S have "0 \<le> S * c" and "S * c \<le> S"
        by (simp_all add: mult_left_le)
      with S assms(1) have "0 \<le> rnd (S * c)" and "rnd (S * c) \<le> DBL_MAX"
        using rounding_nonneg [of rnd "S * c"] rounding_le_fixed [of rnd "S * c" S]
        by simp_all
      then have "to_double rnd (S * c) = Finite (rnd (S * c))"
        by (simp add: to_double_def)
      with Ptr result s c \<open>0 \<le> rnd (S * c)\<close> show ?thesis
        by (simp add: apply_discount_double_def)
    qed
  qed
  from first second show ?thesis by blast
qed

theorem CalculatePrice_double_not_negative_witness:
  "rounding (\<lambda>x. x) \<and> well_formed_order main_memory o9
   \<and> for_lines_double (\<lambda>x. x) main_memory o9 (lines o9) (Finite 0) = Inr (Finite 230.85)
   \<and> CalculatePrice_double (\<lambda>x. x) main_memory o9 = Inr (Finite 219.3075)
   \<and> dge (Finite 219.3075) (Finite 0)"
proof -
  have r: "rounding (\<lambda>x. x)"
    by (simp add: rounding_def mono_def)
  have w: "well_formed_order main_memory o9"
    by (simp add: well_formed_order_def fraction_in_range_def spec_buyer_discount_def
          o9_def a2_def main_memory_def c3_def d1_def d3_def d4_def)
  have l: "for_lines_double (\<lambda>x. x) main_memory o9 (lines o9) (Finite 0)
             = Inr (Finite 230.85)"
    by (simp add: o9_def a2_def main_memory_def c3_def d1_def d3_def
          line_step_double_def apply_discount_double_def buyer_has_discount_def
          to_double_def DBL_MAX_def dsub_def)
  have v: "CalculatePrice_double (\<lambda>x. x) main_memory o9 = Inr (Finite 219.3075)"
    by (simp add: o9_def a2_def main_memory_def c3_def d1_def d3_def d4_def
          CalculatePrice_double_def line_step_double_def apply_discount_double_def
          buyer_has_discount_def to_double_def DBL_MAX_def dsub_def)
  from CalculatePrice_double_not_negative [OF r w] l
  have "\<exists>t. CalculatePrice_double (\<lambda>x. x) main_memory o9 = Inr (Finite t) \<and> 0 \<le> t"
    by blast
  with r w l v show ?thesis
    by simp
qed

text \<open>
  The order with the overflowing line satisfies the hypotheses of the claim, and its price
  is NaN, which is not \<open>>= 0\<close>: \<open>2 ^ 1023 * 2\<close> is beyond the largest double, hence
  infinity; the article's rule gives the factor \<open>1 - 1 = 0\<close>, and infinity times 0 is
  NaN; \<open>0 + NaN\<close> is NaN.
\<close>

theorem CalculatePrice_double_negative_counterexample:
  "rounding (\<lambda>x. x) \<and> well_formed_order overflow_memory overflow_order
   \<and> CalculatePrice_double (\<lambda>x. x) overflow_memory overflow_order = Inr NaN
   \<and> \<not> dge NaN (Finite 0)"
  by (simp add: rounding_def mono_def well_formed_order_def fraction_in_range_def
        spec_buyer_discount_def overflow_memory_def overflow_order_def
        CalculatePrice_double_def line_step_double_def apply_discount_double_def
        buyer_has_discount_def to_double_def DBL_MAX_def inf_times_def dsub_def)

subsection \<open>One rule attached twice\<close>

text \<open>
  Claim C10. When the article of a line and the line itself point to the same fixed rule
  \<open>f\<close>, the rule is applied once for each of the two pointers: the line adds
  \<open>p * q * (1 - f) * (1 - f)\<close> times the factor of the customer's rule, hence
  \<open>p * q * (1 - f) * (1 - f)\<close> when the customer has no rule, which differs from
  \<open>p * q * (1 - f)\<close> unless \<open>p * q * f * (1 - f) = 0\<close>.
\<close>

theorem shared_rule_applied_per_attachment:
  assumes "Article.discount (OrderLine.product ol) = Ptr a"
    and "OrderLine.discount ol = Ptr a"
    and "discount_at m a = FixedDiscount f"
  shows "line_step m ord ol running
           = Inr (running
                  + Article.price (OrderLine.product ol) * real_of_int (OrderLine.quantity ol)
                    * (1 - f) * (1 - f)
                    * spec_factor m (spec_buyer_discount m ord)
                        (Article.price (OrderLine.product ol))
                        (real_of_int (OrderLine.quantity ol)))
         \<and> (spec_buyer_discount m ord = nullptr
              \<longrightarrow> line_step m ord ol running
                    = Inr (running
                           + Article.price (OrderLine.product ol)
                             * real_of_int (OrderLine.quantity ol) * (1 - f) * (1 - f))
                  \<and> (Article.price (OrderLine.product ol)
                       * real_of_int (OrderLine.quantity ol) * f * (1 - f) \<noteq> 0
                     \<longrightarrow> line_step m ord ol running
                         \<noteq> Inr (running
                                + Article.price (OrderLine.product ol)
                                  * real_of_int (OrderLine.quantity ol) * (1 - f))))"
proof -
  have general: "line_step m ord ol running
           = Inr (running
                  + Article.price (OrderLine.product ol) * real_of_int (OrderLine.quantity ol)
                    * (1 - f) * (1 - f)
                    * spec_factor m (spec_buyer_discount m ord)
                        (Article.price (OrderLine.product ol))
                        (real_of_int (OrderLine.quantity ol)))"
    using assms by (simp add: line_step_eq spec_line_price_def Let_def spec_factor_Ptr)
  have differ: "x * (1 - f) * (1 - f) \<noteq> x * (1 - f)" if "x * f * (1 - f) \<noteq> 0" for x
    using that by (simp add: algebra_simps)
  from general differ show ?thesis
    by (simp add: spec_factor_nullptr)
qed

theorem shared_rule_applied_per_attachment_witness:
  "Article.discount a2 = Ptr 1 \<and> discount_at main_memory 1 = FixedDiscount 0.1
   \<and> spec_buyer_discount main_memory (o8\<lparr>buyer := nullptr\<rparr>) = nullptr
   \<and> line_step main_memory (o8\<lparr>buyer := nullptr\<rparr>)
        \<lparr>OrderLine.product = a2, quantity = 20, discount = Ptr 1\<rparr> 0
      = Inr (15 * 20 * (1 - 0.1) * (1 - 0.1))
   \<and> line_step main_memory (o8\<lparr>buyer := nullptr\<rparr>)
        \<lparr>OrderLine.product = a2, quantity = 20, discount = Ptr 1\<rparr> 0
      \<noteq> Inr (15 * 20 * (1 - 0.1))"
  using shared_rule_applied_per_attachment
    [of "\<lparr>OrderLine.product = a2, quantity = 20, discount = Ptr 1\<rparr>" 1 main_memory "0.1"
        "o8\<lparr>buyer := nullptr\<rparr>" 0]
  by (simp add: a2_def main_memory_def d1_def spec_buyer_discount_def spec_factor_def)

end
